theory Spec2Isabelle
  imports Main "HOL-Library.AList"
begin

section \<open>Python values, exceptions and traced computations\<close>

text \<open>
  The plugin is Python 2. Its two task handlers talk to two remote services (the Koji
  session and the OSBS client); every such call may raise. An exception is a class and a
  message; a computation returns the list of remote calls it made, in order, together
  with either the exception that ended it (\<open>Inl\<close>) or its value (\<open>Inr\<close>).
  The messages of the exceptions the plugin raises are those of the source; the messages
  of the errors the interpreter raises (\<open>KeyError\<close>, \<open>TypeError\<close>,
  \<open>AttributeError\<close>) are shortened. Calls to the logger are left out.
\<close>

datatype exn_class =
    SystemExit | ServerExit | KeyboardInterrupt
  | NotImplementedError | BuildError | ContainerError | GenericError
  | AttributeError | KeyError | TypeError | IOError | Fault

datatype exn = Exn (cls: exn_class) (msg: string)

datatype pyval =
    PyNone | PyBool bool | PyInt int | PyStr string | PyList "pyval list"

text \<open>Truth value testing, as \<open>if x:\<close> and \<open>not x\<close> do it.\<close>

fun truthy :: "pyval \<Rightarrow> bool" where
  "truthy PyNone = False"
| "truthy (PyBool b) = b"
| "truthy (PyInt n) = (n \<noteq> 0)"
| "truthy (PyStr s) = (s \<noteq> [])"
| "truthy (PyList vs) = (vs \<noteq> [])"

text \<open>
  A dict is an association list with distinct keys, in insertion order; \<open>d[k] = v\<close> is
  \<open>AList.update k v d\<close>. CPython 2 iterates a dict in hash order, not insertion order:
  the theorems below speak of the keys and values as sets or through \<open>map_of\<close>, so
  they do not depend on the order chosen here.
\<close>

type_synonym 'v pydict = "(string \<times> 'v) list"

definition dict_get :: "pyval pydict \<Rightarrow> string \<Rightarrow> pyval" where
  \<comment> \<open>\<open>d.get(k)\<close>: \<open>None\<close> for a missing key\<close>
  "dict_get d k = (case map_of d k of None \<Rightarrow> PyNone | Some v \<Rightarrow> v)"

definition dict_item :: "pyval pydict \<Rightarrow> string \<Rightarrow> exn + pyval" where
  \<comment> \<open>\<open>d[k]\<close>: \<open>KeyError\<close> for a missing key\<close>
  "dict_item d k = (case map_of d k of None \<Rightarrow> Inl (Exn KeyError k) | Some v \<Rightarrow> Inr v)"

subsection \<open>Strings\<close>

definition is_space :: "char \<Rightarrow> bool" where
  \<comment> \<open>the whitespace of \<open>str.split()\<close>: space, tab, newline, vertical tab, form feed, return\<close>
  "is_space c = (c = CHR '' '' \<or> c = CHR 0x09 \<or> c = CHR 0x0A \<or> c = CHR 0x0B
                 \<or> c = CHR 0x0C \<or> c = CHR 0x0D)"

fun split_from :: "string \<Rightarrow> string \<Rightarrow> string list" where
  "split_from cur [] = (if cur = [] then [] else [cur])"
| "split_from cur (c # cs) =
     (if is_space c then (if cur = [] then split_from [] cs else cur # split_from [] cs)
      else split_from (cur @ [c]) cs)"

definition py_split :: "string \<Rightarrow> string list" where
  \<comment> \<open>\<open>s.split()\<close> with no separator: the maximal runs of non-whitespace characters\<close>
  "py_split s = split_from [] s"

definition endswith :: "string \<Rightarrow> string \<Rightarrow> bool" where
  "endswith s suf = (length suf \<le> length s \<and> drop (length s - length suf) s = suf)"

definition basename :: "string \<Rightarrow> string" where
  \<comment> \<open>\<open>os.path.basename\<close> (posixpath): what follows the last slash\<close>
  "basename p = rev (takeWhile (\<lambda>c. c \<noteq> CHR ''/'') (rev p))"

definition path_join :: "string \<Rightarrow> string \<Rightarrow> string" where
  \<comment> \<open>\<open>os.path.join(a, b)\<close> (posixpath, two components)\<close>
  "path_join a b =
     (if b \<noteq> [] \<and> hd b = CHR ''/'' then b
      else if a = [] \<or> last a = CHR ''/'' then a @ b
      else a @ ''/'' @ b)"

definition digit_char :: "nat \<Rightarrow> char" where
  "digit_char d =
     (if d = 0 then CHR ''0'' else if d = 1 then CHR ''1'' else if d = 2 then CHR ''2''
      else if d = 3 then CHR ''3'' else if d = 4 then CHR ''4'' else if d = 5 then CHR ''5''
      else if d = 6 then CHR ''6'' else if d = 7 then CHR ''7'' else if d = 8 then CHR ''8''
      else CHR ''9'')"

fun str_nat :: "nat \<Rightarrow> string" where
  "str_nat n = (if n < 10 then [digit_char n] else str_nat (n div 10) @ [digit_char (n mod 10)])"

declare str_nat.simps [simp del]

definition str_int :: "int \<Rightarrow> string" where
  \<comment> \<open>\<open>str(n)\<close> of an integer: decimal digits, with a minus sign when negative\<close>
  "str_int i = (if i < 0 then CHR ''-'' # str_nat (nat (- i)) else str_nat (nat i))"

subsection \<open>Remote calls and traced results\<close>

text \<open>The subtask result \<open>imgdata\<close> is a dict from strings to values.\<close>

type_synonym result = "pyval pydict"

record target_info =
  ti_name :: string
  ti_build_tag :: int
  ti_dest_tag_name :: string

record buildconfig =
  bc_name :: string
  bc_id :: int
  bc_arches :: "string option"

datatype call =
    GetLastEvent
  | GetBuildTarget string int
  | GetBuildConfig int int
  | Subtask string string target_info int string string int
  | Wait "int list" bool bool
  | MoveContainerToScratch int "result pydict"
  | GetBuild pyval
  | GetTaskInfo int
  | GetUser int
  | NewOSBS
  | CreateBuild string string string string string string
  | WaitForBuildToFinish pyval
  | GetBuildLogs pyval
  | WriteFile string string
  | UploadFile string

type_synonym 'a traced = "call list \<times> (exn + 'a)"

definition return_tr :: "'a \<Rightarrow> 'a traced" where
  "return_tr a = ([], Inr a)"

definition raise_tr :: "exn \<Rightarrow> 'a traced" where
  "raise_tr e = ([], Inl e)"

definition call_tr :: "call \<Rightarrow> exn + 'a \<Rightarrow> 'a traced" where
  \<comment> \<open>one remote call: it is recorded whether it returns or raises\<close>
  "call_tr c r = ([c], r)"

definition lift_tr :: "exn + 'a \<Rightarrow> 'a traced" where
  \<comment> \<open>a local step that can raise and makes no remote call\<close>
  "lift_tr r = ([], r)"

definition bind_tr :: "'a traced \<Rightarrow> ('a \<Rightarrow> 'b traced) \<Rightarrow> 'b traced" where
  \<comment> \<open>sequencing: an exception ends the run, the calls made so far are kept\<close>
  "bind_tr m f =
     (case m of
        (t, Inl e) \<Rightarrow> (t, Inl e)
      | (t, Inr a) \<Rightarrow> (case f a of (t', r) \<Rightarrow> (t @ t', r)))"

definition then_tr :: "'a traced \<Rightarrow> 'b traced \<Rightarrow> 'b traced" where
  "then_tr m n = bind_tr m (\<lambda>_. n)"

definition try_except :: "'a traced \<Rightarrow> (exn \<Rightarrow> 'a traced) \<Rightarrow> 'a traced" where
  \<comment> \<open>\<open>try: m except: h\<close>\<close>
  "try_except m h =
     (case m of
        (t, Inl e) \<Rightarrow> (case h e of (t', r) \<Rightarrow> (t @ t', r))
      | (t, Inr a) \<Rightarrow> (t, Inr a))"

section \<open>The collaborators of the orchestrator\<close>

text \<open>
  The Koji session, \<open>BaseTaskHandler.wait\<close>, \<open>koji.canonArch\<close> and
  \<open>SCM.is_scm_url\<close> belong to Koji, not to this plugin. They are parameters: each
  remote method is the response it gives to its arguments, a value or an exception.
  \<open>getBuildTarget\<close> answers \<open>None\<close> for a target it does not know.
\<close>

record event =
  ev_id :: int

record env =
  getLastEvent :: "exn + event"
  getBuildTarget :: "string \<Rightarrow> int \<Rightarrow> exn + target_info option"
  getBuildConfig :: "int \<Rightarrow> int \<Rightarrow> exn + buildconfig"
  canonArch :: "string \<Rightarrow> string"
  is_scm_url :: "string \<Rightarrow> bool"
  host_subtask :: "string \<Rightarrow> string \<Rightarrow> target_info \<Rightarrow> int \<Rightarrow> string \<Rightarrow> string \<Rightarrow> int \<Rightarrow> exn + int"
  task_wait :: "int list \<Rightarrow> bool \<Rightarrow> bool \<Rightarrow> exn + (int \<times> result) list"
  host_moveContainerToScratch :: "int \<Rightarrow> result pydict \<Rightarrow> exn + unit"

section \<open>BuildContainerTask.getArchList\<close>

definition no_arches_msg :: "buildconfig \<Rightarrow> string" where
  \<comment> \<open>\<open>"No arches for tag %(name)s [%(id)s]" % buildconfig\<close>\<close>
  "no_arches_msg bc = ''No arches for tag '' @ bc_name bc @ '' ['' @ str_int (bc_id bc) @ '']''"

definition with_extra :: "string \<Rightarrow> string option \<Rightarrow> string" where
  \<comment> \<open>lines 170-172: \<open>if extra: arches = "%s %s" % (arches, extra)\<close>\<close>
  "with_extra arches extra =
     (case extra of
        None \<Rightarrow> arches
      | Some x \<Rightarrow> if x = [] then arches else arches @ '' '' @ x)"

definition working_archlist :: "pyval pydict \<Rightarrow> string \<Rightarrow> string option \<Rightarrow> exn + string list" where
  \<comment> \<open>lines 170-180: the list the filter runs over. A truthy override that is not a
      string has no \<open>split\<close> method.\<close>
  "working_archlist opts arches extra =
     (let archlist = py_split (with_extra arches extra);
          override = dict_get opts ''arch_override''
      in if truthy (dict_get opts ''scratch'') \<and> truthy override
         then (case override of
                 PyStr s \<Rightarrow> Inr (py_split s)
               | _ \<Rightarrow> Inl (Exn AttributeError ''split''))
         else Inr archlist)"

fun filter_arches :: "(string \<Rightarrow> string) \<Rightarrow> string list \<Rightarrow> string list \<Rightarrow> int pydict \<Rightarrow> int pydict" where
  \<comment> \<open>lines 182-186: the loop filling \<open>archdict\<close>\<close>
  "filter_arches canon tag_archlist [] archdict = archdict"
| "filter_arches canon tag_archlist (a # as) archdict =
     filter_arches canon tag_archlist as
       (if a = ''noarch'' \<or> canon a \<in> set tag_archlist
        then AList.update a 1 archdict else archdict)"

definition getArchList :: "env \<Rightarrow> pyval pydict \<Rightarrow> int \<Rightarrow> int \<Rightarrow> string option \<Rightarrow> string list traced" where
  \<comment> \<open>\<open>self.opts\<close> and \<open>self.event_id\<close> are the second and third argument\<close>
  "getArchList env opts event_id build_tag extra =
     bind_tr (call_tr (GetBuildConfig build_tag event_id) (getBuildConfig env build_tag event_id))
       (\<lambda>buildconfig.
          case bc_arches buildconfig of
            None \<Rightarrow> raise_tr (Exn BuildError (no_arches_msg buildconfig))
          | Some arches \<Rightarrow>
              if arches = [] then raise_tr (Exn BuildError (no_arches_msg buildconfig))
              else
                (let tag_archlist = map (canonArch env) (py_split arches) in
                 bind_tr (lift_tr (working_archlist opts arches extra))
                   (\<lambda>archlist.
                      let archdict = filter_arches (canonArch env) tag_archlist archlist [] in
                      if archdict = [] then raise_tr (Exn BuildError ''No matching arches were found'')
                      else return_tr (map fst archdict))))"

section \<open>BuildContainerTask: dispatch, join, finalization\<close>

fun dispatch_subtasks ::
  "env \<Rightarrow> int \<Rightarrow> string \<Rightarrow> target_info \<Rightarrow> int \<Rightarrow> string list \<Rightarrow> int pydict \<Rightarrow> int pydict traced" where
  \<comment> \<open>lines 144-152 of \<open>runBuilds\<close>: one \<open>subtask\<close> call per arch, recorded in \<open>subtasks\<close>\<close>
  "dispatch_subtasks env self_id src target_info build_tag [] subtasks = return_tr subtasks"
| "dispatch_subtasks env self_id src target_info build_tag (arch # arches) subtasks =
     (case host_subtask env ''createContainer'' src target_info build_tag arch ''container'' self_id of
        Inl e \<Rightarrow>
          ([Subtask ''createContainer'' src target_info build_tag arch ''container'' self_id], Inl e)
      | Inr task_id \<Rightarrow>
          then_tr
            ([Subtask ''createContainer'' src target_info build_tag arch ''container'' self_id], Inr ())
            (dispatch_subtasks env self_id src target_info build_tag arches
               (AList.update arch task_id subtasks)))"

definition runBuilds ::
  "env \<Rightarrow> int \<Rightarrow> string \<Rightarrow> target_info \<Rightarrow> int \<Rightarrow> string list \<Rightarrow> (int \<times> result) list traced" where
  \<comment> \<open>\<open>self.wait(subtasks.values(), all=True, failany=True)\<close> answers a dict keyed by
      task id, or raises\<close>
  "runBuilds env self_id src target_info build_tag arches =
     bind_tr (dispatch_subtasks env self_id src target_info build_tag arches [])
       (\<lambda>subtasks.
          call_tr (Wait (map snd subtasks) True True)
            (task_wait env (map snd subtasks) True True))"

fun rekey :: "(int \<times> result) list \<Rightarrow> result pydict \<Rightarrow> result pydict" where
  \<comment> \<open>lines 233-236: \<open>results_xmlrpc[str(task_id)] = result\<close> for every item of \<open>results\<close>\<close>
  "rekey [] results_xmlrpc = results_xmlrpc"
| "rekey ((task_id, result) # items) results_xmlrpc =
     rekey items (AList.update (str_int task_id) result results_xmlrpc)"

record build =
  is_failed :: bool

record build_response =
  build_id :: pyval

record osbs_client =
  create_build :: "string \<Rightarrow> string \<Rightarrow> string \<Rightarrow> string \<Rightarrow> string \<Rightarrow> string \<Rightarrow> exn + build_response"
  wait_for_build_to_finish :: "pyval \<Rightarrow> exn + pyval"
  get_build_logs :: "pyval \<Rightarrow> exn + string"
  get_build :: "pyval \<Rightarrow> exn + build"

text \<open>
  \<open>BuildContainerTask\<close> defines the methods \<open>initContainerBuild\<close>, \<open>runBuilds\<close>,
  \<open>getArchList\<close>, \<open>getRelease\<close>, \<open>handler\<close> and \<open>_raise_if_image_failed\<close>, and no
  \<open>osbs\<close>: that method is defined by \<open>CreateContainerTask\<close> alone (lines 59-66), and
  the common base class is Koji's \<open>BaseTaskHandler\<close>, which knows nothing of OSBS. The
  attribute lookup \<open>self.osbs\<close> of line 261 therefore raises \<open>AttributeError\<close>.
\<close>

definition BuildContainerTask_osbs :: "osbs_client traced" where
  "BuildContainerTask_osbs =
     raise_tr (Exn AttributeError ''BuildContainerTask object has no attribute osbs'')"

definition raise_if_image_failed :: "pyval \<Rightarrow> unit traced" where
  \<comment> \<open>lines 260-263\<close>
  "raise_if_image_failed osbs_build_id =
     bind_tr BuildContainerTask_osbs
       (\<lambda>client.
          bind_tr (call_tr (GetBuild osbs_build_id) (get_build client osbs_build_id))
            (\<lambda>build.
               if is_failed build then raise_tr (Exn ContainerError ''Image build failed'')
               else return_tr ()))"

fun verify_results :: "result list \<Rightarrow> unit traced" where
  \<comment> \<open>lines 246-247: the loop over \<open>results.values()\<close>\<close>
  "verify_results [] = return_tr ()"
| "verify_results (result # rest) =
     then_tr
       (bind_tr (lift_tr (dict_item result ''osbs_build_id'')) raise_if_image_failed)
       (verify_results rest)"

definition unsupported :: exn where
  "unsupported = Exn NotImplementedError ''Non-scratch container builds support isn't finished yet''"

definition handler_try ::
  "env \<Rightarrow> int \<Rightarrow> string \<Rightarrow> target_info \<Rightarrow> int \<Rightarrow> string list \<Rightarrow> pyval pydict \<Rightarrow> unit traced" where
  \<comment> \<open>lines 228-247, the body of the \<open>try\<close>. The assignment to \<open>self.extra_information\<close>
      has no effect on the run; the \<open>completeContainerBuild\<close> call of line 243 follows a
      \<open>raise\<close> and is never reached.\<close>
  "handler_try env self_id src target_info build_tag archlist opts =
     (if \<not> is_scm_url env src
      then raise_tr (Exn BuildError (''Invalid source specification: '' @ src))
      else
        bind_tr (runBuilds env self_id src target_info build_tag archlist)
          (\<lambda>results.
             let results_xmlrpc = rekey results [] in
             then_tr
               (if truthy (dict_get opts ''scratch'')
                then call_tr (MoveContainerToScratch self_id results_xmlrpc)
                       (host_moveContainerToScratch env self_id results_xmlrpc)
                else raise_tr unsupported)
               (verify_results (map snd results))))"

definition is_signal :: "exn \<Rightarrow> bool" where
  \<comment> \<open>line 248: \<open>except (SystemExit, ServerExit, KeyboardInterrupt)\<close>\<close>
  "is_signal e = (cls e = SystemExit \<or> cls e = ServerExit \<or> cls e = KeyboardInterrupt)"

definition handler_except :: "pyval pydict \<Rightarrow> exn \<Rightarrow> unit traced" where
  \<comment> \<open>lines 248-258, the two \<open>except\<close> clauses. The \<open>failBuild\<close> call of line 256 follows
      a \<open>raise\<close> and is never reached.\<close>
  "handler_except opts e =
     (if is_signal e then raise_tr e
      else if \<not> truthy (dict_get opts ''scratch'') then raise_tr unsupported
      else raise_tr e)"

definition handler :: "env \<Rightarrow> int \<Rightarrow> string \<Rightarrow> string \<Rightarrow> pyval pydict option \<Rightarrow> unit traced" where
  \<comment> \<open>lines 195-258. \<open>self.id\<close> is the second argument. Lines 211-225 follow the
      \<open>raise\<close> of line 209 and are never reached.\<close>
  "handler env self_id src target opts_arg =
     (let opts = (case opts_arg of None \<Rightarrow> [] | Some d \<Rightarrow> if d = [] then [] else d) in
      bind_tr (call_tr GetLastEvent (getLastEvent env))
        (\<lambda>ev.
           let event_id = ev_id ev in
           bind_tr (call_tr (GetBuildTarget target event_id) (getBuildTarget env target event_id))
             (\<lambda>reply.
                bind_tr
                  (lift_tr
                     (case reply of
                        None \<Rightarrow> Inl (Exn TypeError ''NoneType object has no attribute __getitem__'')
                      | Some target_info \<Rightarrow> Inr target_info))
                  (\<lambda>target_info.
                     let build_tag = ti_build_tag target_info in
                     bind_tr (getArchList env opts event_id build_tag None)
                       (\<lambda>archlist.
                          if \<not> truthy (dict_get opts ''scratch'') then raise_tr unsupported
                          else
                            try_except
                              (handler_try env self_id src target_info build_tag archlist opts)
                              (handler_except opts))))))"

text \<open>What a trace holds: the calls that create subtasks, and the scratch finalization.\<close>

fun is_subtask :: "call \<Rightarrow> bool" where
  "is_subtask (Subtask m s ti bt a l p) = True"
| "is_subtask c = False"

fun is_finalization :: "call \<Rightarrow> bool" where
  "is_finalization (MoveContainerToScratch i r) = True"
| "is_finalization c = False"

section \<open>CreateContainerTask\<close>

text \<open>
  The per-architecture task. \<open>SCM\<close> (the parser of the source locator and its
  allow-list check) is Koji's and \<open>OSBS\<close> is the external client: both are parameters.
  The task object holds its id, its working directory, the allow-list of its options
  and the cached client \<open>_osbs\<close>.
\<close>

record task_info =
  owner :: int

record user_info =
  user_name :: string

record scm =
  scheme :: string
  host :: string
  repository :: string
  revision :: string

record cc_env =
  getTaskInfo :: "int \<Rightarrow> exn + task_info"
  getUser :: "int \<Rightarrow> exn + user_info"
  new_SCM :: "string \<Rightarrow> exn + scm"
  assert_allowed :: "scm \<Rightarrow> string \<Rightarrow> exn + unit"
  new_OSBS :: "exn + osbs_client"
  write_file :: "string \<Rightarrow> string \<Rightarrow> exn + unit"
  uploadFile :: "string \<Rightarrow> exn + unit"

record cc_task =
  task_id :: int
  workdir :: string
  allowed_scms :: string

definition osbs :: "cc_env \<Rightarrow> osbs_client option \<Rightarrow> (osbs_client \<times> osbs_client option) traced" where
  \<comment> \<open>lines 59-66: the client is built on first use and kept in \<open>self._osbs\<close>; the value
      is the client together with the new \<open>self._osbs\<close>\<close>
  "osbs cenv cached =
     (case cached of
        Some client \<Rightarrow> return_tr (client, Some client)
      | None \<Rightarrow> bind_tr (call_tr NewOSBS (new_OSBS cenv)) (\<lambda>client. return_tr (client, Some client)))"

definition download_logs ::
  "cc_env \<Rightarrow> cc_task \<Rightarrow> osbs_client option \<Rightarrow> pyval \<Rightarrow> (string list \<times> osbs_client option) traced" where
  \<comment> \<open>lines 48-57, \<open>_download_logs\<close>\<close>
  "download_logs cenv self cached osbs_build_id =
     (let build_log = path_join (workdir self) ''build.log'' in
      bind_tr (osbs cenv cached)
        (\<lambda>(client, cached').
           bind_tr (call_tr (GetBuildLogs osbs_build_id) (get_build_logs client osbs_build_id))
             (\<lambda>build_log_contents.
                bind_tr (call_tr (WriteFile build_log build_log_contents)
                           (write_file cenv build_log build_log_contents))
                  (\<lambda>_. return_tr ([''build.log''], cached')))))"

fun upload_logs :: "cc_env \<Rightarrow> cc_task \<Rightarrow> string list \<Rightarrow> unit traced" where
  \<comment> \<open>lines 107-109\<close>
  "upload_logs cenv self [] = return_tr ()"
| "upload_logs cenv self (filename # logs) =
     then_tr
       (call_tr (UploadFile (path_join (workdir self) filename))
          (uploadFile cenv (path_join (workdir self) filename)))
       (upload_logs cenv self logs)"

definition after_plus :: "string \<Rightarrow> string" where
  \<comment> \<open>\<open>scheme.split('+')[1]\<close>, for a scheme that holds a plus sign\<close>
  "after_plus s =
     takeWhile (\<lambda>c. c \<noteq> CHR ''+'') (drop 1 (dropWhile (\<lambda>c. c \<noteq> CHR ''+'') s))"

definition git_uri_of :: "scm \<Rightarrow> string" where
  \<comment> \<open>lines 78-81: \<open>'%s%s%s' % (scheme, scm.host, scm.repository)\<close>, with the scheme cut
      to what follows its plus sign\<close>
  "git_uri_of scm =
     (let scheme' = (if CHR ''+'' \<in> set (scheme scm) then after_plus (scheme scm) else scheme scm)
      in scheme' @ host scm @ repository scm)"

definition component_name :: "string \<Rightarrow> string" where
  \<comment> \<open>lines 82-86, from \<open>scm.repository\<close>\<close>
  "component_name repo =
     (if endswith repo ''.git'' then basename (take (length repo - 4) repo)
      else basename repo)"

definition spec_component_name :: "string \<Rightarrow> string" where
  \<comment> \<open>the specification's wording: the final path segment, with a trailing \<open>.git\<close>
      stripped when present\<close>
  "spec_component_name repo =
     (let segment = basename repo in
      if endswith segment ''.git'' then take (length segment - 4) segment else segment)"

definition CreateContainerTask_handler ::
  "cc_env \<Rightarrow> cc_task \<Rightarrow> osbs_client option \<Rightarrow> string \<Rightarrow> target_info \<Rightarrow> int \<Rightarrow> string \<Rightarrow> result traced" where
  \<comment> \<open>lines 68-116; the third argument is \<open>self._osbs\<close> when the handler starts\<close>
  "CreateContainerTask_handler cenv self cached src target_info build_tag arch =
     bind_tr (call_tr (GetTaskInfo (task_id self)) (getTaskInfo cenv (task_id self)))
       (\<lambda>this_task.
     bind_tr (call_tr (GetUser (owner this_task)) (getUser cenv (owner this_task)))
       (\<lambda>owner_info.
     bind_tr (lift_tr (new_SCM cenv src))
       (\<lambda>scm.
     bind_tr (lift_tr (assert_allowed cenv scm (allowed_scms self)))
       (\<lambda>_.
     let git_uri = git_uri_of scm;
         component = component_name (repository scm)
     in
     bind_tr (osbs cenv cached)
       (\<lambda>(client, cached1).
     bind_tr (call_tr (CreateBuild git_uri (revision scm) (user_name owner_info) component
                         (ti_name target_info) arch)
                (create_build client git_uri (revision scm) (user_name owner_info) component
                   (ti_name target_info) arch))
       (\<lambda>build.
     bind_tr (osbs cenv cached1)
       (\<lambda>(client2, cached2).
     bind_tr (call_tr (WaitForBuildToFinish (build_id build))
                (wait_for_build_to_finish client2 (build_id build)))
       (\<lambda>build_json.
     bind_tr (download_logs cenv self cached2 (build_id build))
       (\<lambda>(logs, cached3).
     then_tr (upload_logs cenv self logs)
       (return_tr
          [(''task_id'', PyInt (task_id self)),
           (''logs'', PyList (map PyStr logs)),
           (''osbs_build_id'', build_id build)]))))))))))"

section \<open>Observations and concrete collaborators\<close>

abbreviation arch_allowed :: "env \<Rightarrow> string \<Rightarrow> string \<Rightarrow> bool" where
  \<comment> \<open>the filter of line 185, against the arches \<open>arches\<close> the tag declares\<close>
  "arch_allowed env arches a \<equiv>
     (a = ''noarch'' \<or> canonArch env a \<in> canonArch env ` set (py_split arches))"

text \<open>
  A session for the examples: the build tag declares \<open>x86_64 ppc64le\<close>, arches are
  their own canonical form, the subtasks get the ids 101 and 102, and the join
  answers the results of both.
\<close>

definition demo_target :: target_info where
  "demo_target = \<lparr>ti_name = ''t1'', ti_build_tag = 3, ti_dest_tag_name = ''dest''\<rparr>"

definition demo_result :: "int \<Rightarrow> string \<Rightarrow> result" where
  "demo_result i b =
     [(''task_id'', PyInt i), (''logs'', PyList [PyStr ''build.log'']), (''osbs_build_id'', PyStr b)]"

definition demo_env :: env where
  "demo_env =
     \<lparr> getLastEvent = Inr \<lparr>ev_id = 7\<rparr>,
       getBuildTarget = (\<lambda>t e. Inr (Some demo_target)),
       getBuildConfig = (\<lambda>t e. Inr \<lparr>bc_name = ''f-build'', bc_id = t, bc_arches = Some ''x86_64 ppc64le''\<rparr>),
       canonArch = (\<lambda>a. a),
       is_scm_url = (\<lambda>s. True),
       host_subtask = (\<lambda>m s ti bt a l p. if a = ''x86_64'' then Inr 101 else Inr 102),
       task_wait = (\<lambda>ids a f. Inr [(101, demo_result 101 ''b1''), (102, demo_result 102 ''b2'')]),
       host_moveContainerToScratch = (\<lambda>i r. Inr ()) \<rparr>"

definition scratch_opts :: "pyval pydict" where
  "scratch_opts = [(''scratch'', PyBool True)]"

definition override_opts :: "bool \<Rightarrow> string \<Rightarrow> pyval pydict" where
  "override_opts scratch s = [(''scratch'', PyBool scratch), (''arch_override'', PyStr s)]"

text \<open>A per-architecture task, its OSBS client and its session, for the examples.\<close>

definition demo_client :: osbs_client where
  "demo_client =
     \<lparr> create_build = (\<lambda>git_uri git_ref user component target arch. Inr \<lparr>build_id = PyStr ''build-1''\<rparr>),
       wait_for_build_to_finish = (\<lambda>b. Inr PyNone),
       get_build_logs = (\<lambda>b. Inr ''log text''),
       get_build = (\<lambda>b. Inr \<lparr>is_failed = True\<rparr>) \<rparr>"

definition demo_cc_env :: cc_env where
  "demo_cc_env =
     \<lparr> getTaskInfo = (\<lambda>i. Inr \<lparr>owner = 5\<rparr>),
       getUser = (\<lambda>i. Inr \<lparr>user_name = ''alice''\<rparr>),
       new_SCM = (\<lambda>s. Inr \<lparr>scheme = ''git+https://'', host = ''example.com'',
                               repository = ''/rpms/foo.git'', revision = ''abc''\<rparr>),
       assert_allowed = (\<lambda>s a. Inr ()),
       new_OSBS = Inr demo_client,
       write_file = (\<lambda>p c. Inr ()),
       uploadFile = (\<lambda>p. Inr ()) \<rparr>"

definition demo_task :: cc_task where
  "demo_task = \<lparr>task_id = 42, workdir = ''/tmp/w'', allowed_scms = ''example.com:/rpms/*''\<rparr>"

text \<open>
  Variants of the session: a build tag that declares no arches, a join that fails
  because the subtask 102 failed, and a join interrupted by the shutdown of the daemon.
\<close>

definition noarches_env :: env where
  "noarches_env =
     demo_env \<lparr> getBuildConfig := (\<lambda>t e. Inr \<lparr>bc_name = ''f-build'', bc_id = t, bc_arches = Some []\<rparr>) \<rparr>"

definition unknown_target_env :: env where
  \<comment> \<open>the session does not know the target\<close>
  "unknown_target_env = demo_env \<lparr> getBuildTarget := (\<lambda>t e. Inr None) \<rparr>"

definition no_session_env :: env where
  \<comment> \<open>the first remote call fails\<close>
  "no_session_env = demo_env \<lparr> getLastEvent := Inl (Exn Fault ''connection refused'') \<rparr>"

definition failing_env :: env where
  "failing_env =
     demo_env \<lparr> task_wait := (\<lambda>ids a f. if 102 \<in> set ids \<and> a \<and> f
                                     then Inl (Exn GenericError ''subtask 102 failed'')
                                     else Inr []) \<rparr>"

definition shutdown_env :: env where
  "shutdown_env = demo_env \<lparr> task_wait := (\<lambda>ids a f. Inl (Exn ServerExit [])) \<rparr>"

definition demo_src :: string where
  "demo_src = ''git://example.com/rpms/foo#abc''"

section \<open>Traced computations\<close>

lemma bind_tr_Inl: "bind_tr (t, Inl e) f = (t, Inl e)"
  by (simp add: bind_tr_def)

lemma bind_tr_Inr: "bind_tr (t, Inr a) f = (t @ fst (f a), snd (f a))"
  by (simp add: bind_tr_def split: prod.splits)

lemma then_tr_Inl: "then_tr (t, Inl e) n = (t, Inl e)"
  by (simp add: then_tr_def bind_tr_Inl)

lemma then_tr_Inr: "then_tr (t, Inr a) n = (t @ fst n, snd n)"
  by (simp add: then_tr_def bind_tr_Inr)

lemmas traced_defs = call_tr_def lift_tr_def raise_tr_def return_tr_def

section \<open>Architecture resolution\<close>

lemma filter_arches_keys:
  "fst ` set (filter_arches canon tal xs d) =
     fst ` set d \<union> {a \<in> set xs. a = ''noarch'' \<or> canon a \<in> set tal}"
  by (induction xs arbitrary: d) (auto simp: dom_update)

lemma filter_arches_distinct:
  "distinct (map fst d) \<Longrightarrow> distinct (map fst (filter_arches canon tal xs d))"
  by (induction xs arbitrary: d) (auto simp: distinct_update)

lemma filter_arches_set:
  "set (map fst (filter_arches (canonArch env) (map (canonArch env) (py_split arches)) wl [])) =
     {a \<in> set wl. arch_allowed env arches a}"
  using filter_arches_keys [of "canonArch env" "map (canonArch env) (py_split arches)" wl "[]"]
  by simp

lemma filter_arches_Nil:
  "filter_arches (canonArch env) (map (canonArch env) (py_split arches)) wl [] = [] \<longleftrightarrow>
     {a \<in> set wl. arch_allowed env arches a} = {}"
proof -
  have "filter_arches (canonArch env) (map (canonArch env) (py_split arches)) wl [] = [] \<longleftrightarrow>
        set (map fst (filter_arches (canonArch env) (map (canonArch env) (py_split arches)) wl [])) = {}"
    by simp
  then show ?thesis
    by (simp only: filter_arches_set)
qed

lemma getArchList_unfold:
  assumes "getBuildConfig env bt ev = Inr bc" "bc_arches bc = Some arches" "arches \<noteq> []"
    and "working_archlist opts arches extra = Inr wl"
  shows "getArchList env opts ev bt extra =
     ([GetBuildConfig bt ev],
      if filter_arches (canonArch env) (map (canonArch env) (py_split arches)) wl [] = []
      then Inl (Exn BuildError ''No matching arches were found'')
      else Inr (map fst (filter_arches (canonArch env) (map (canonArch env) (py_split arches)) wl [])))"
  using assms
  by (simp add: getArchList_def traced_defs bind_tr_Inr)

lemma getArchList_Inr:
  assumes "getArchList env opts ev bt extra = (t, Inr ks)"
  shows "\<exists>bc arches wl. getBuildConfig env bt ev = Inr bc \<and> bc_arches bc = Some arches
           \<and> arches \<noteq> [] \<and> working_archlist opts arches extra = Inr wl
           \<and> t = [GetBuildConfig bt ev] \<and> ks \<noteq> []
           \<and> ks = map fst (filter_arches (canonArch env) (map (canonArch env) (py_split arches)) wl [])"
  using assms
  by (auto simp: getArchList_def traced_defs bind_tr_def Let_def
           split: sum.splits option.splits if_splits prod.splits)

lemma getArchList_cases:
  assumes "getBuildConfig env bt ev = Inr bc" "bc_arches bc = Some arches" "arches \<noteq> []"
    and "working_archlist opts arches extra = Inr wl"
  shows "({a \<in> set wl. arch_allowed env arches a} = {} \<longrightarrow>
            getArchList env opts ev bt extra =
              ([GetBuildConfig bt ev], Inl (Exn BuildError ''No matching arches were found'')))
       \<and> ({a \<in> set wl. arch_allowed env arches a} \<noteq> {} \<longrightarrow>
            (\<exists>ks. getArchList env opts ev bt extra = ([GetBuildConfig bt ev], Inr ks)
                \<and> set ks = {a \<in> set wl. arch_allowed env arches a} \<and> distinct ks))"
proof -
  let ?d = "filter_arches (canonArch env) (map (canonArch env) (py_split arches)) wl []"
  have u: "getArchList env opts ev bt extra =
     ([GetBuildConfig bt ev],
      if ?d = [] then Inl (Exn BuildError ''No matching arches were found'') else Inr (map fst ?d))"
    by (rule getArchList_unfold [OF assms])
  have d: "distinct (map fst ?d)"
    by (rule filter_arches_distinct) simp
  show ?thesis
    using u d filter_arches_Nil [of env arches wl] filter_arches_set [of env arches wl]
    by auto
qed

lemmas demo_eval =
  getArchList_def traced_defs bind_tr_Inl bind_tr_Inr then_tr_Inl then_tr_Inr
  working_archlist_def with_extra_def dict_get_def py_split_def is_space_def
  demo_env_def demo_target_def scratch_opts_def override_opts_def

text \<open>
  C5. Whenever \<open>getArchList\<close> returns, the list it returns is not empty, holds no arch
  twice, and holds exactly the tokens of the working list that are \<open>noarch\<close> or whose
  canonical form is the canonical form of an arch the tag declares. When no token of
  the working list passes that filter, the call raises \<open>BuildError\<close> with the message
  \<open>No matching arches were found\<close>.
\<close>

theorem getArchList_resolved:
  "(getArchList env opts ev bt extra = (t, Inr ks) \<longrightarrow>
      ks \<noteq> [] \<and> distinct ks \<and>
      (\<exists>bc arches wl. getBuildConfig env bt ev = Inr bc \<and> bc_arches bc = Some arches
         \<and> working_archlist opts arches extra = Inr wl
         \<and> (\<forall>a \<in> set ks. a = ''noarch'' \<or> canonArch env a \<in> canonArch env ` set (py_split arches))
         \<and> set ks = {a \<in> set wl. arch_allowed env arches a}))
   \<and> (getBuildConfig env bt ev = Inr bc' \<and> bc_arches bc' = Some arches' \<and> arches' \<noteq> []
        \<and> working_archlist opts arches' extra = Inr wl'
        \<and> {a \<in> set wl'. arch_allowed env arches' a} = {} \<longrightarrow>
      getArchList env opts ev bt extra =
        ([GetBuildConfig bt ev], Inl (Exn BuildError ''No matching arches were found'')))"
proof (intro conjI impI)
  assume r: "getArchList env opts ev bt extra = (t, Inr ks)"
  from getArchList_Inr [OF r] obtain bc arches wl where
    h: "getBuildConfig env bt ev = Inr bc" "bc_arches bc = Some arches" "arches \<noteq> []"
       "working_archlist opts arches extra = Inr wl" "ks \<noteq> []"
       "ks = map fst (filter_arches (canonArch env) (map (canonArch env) (py_split arches)) wl [])"
    by blast
  show "ks \<noteq> []" by (rule h(5))
  show "distinct ks" unfolding h(6) by (rule filter_arches_distinct) simp
  have s: "set ks = {a \<in> set wl. arch_allowed env arches a}"
    unfolding h(6) by (rule filter_arches_set)
  then have "\<forall>a \<in> set ks. a = ''noarch'' \<or> canonArch env a \<in> canonArch env ` set (py_split arches)"
    by blast
  with h s show "\<exists>bc arches wl. getBuildConfig env bt ev = Inr bc \<and> bc_arches bc = Some arches
         \<and> working_archlist opts arches extra = Inr wl
         \<and> (\<forall>a \<in> set ks. a = ''noarch'' \<or> canonArch env a \<in> canonArch env ` set (py_split arches))
         \<and> set ks = {a \<in> set wl. arch_allowed env arches a}"
    by blast
next
  assume a: "getBuildConfig env bt ev = Inr bc' \<and> bc_arches bc' = Some arches' \<and> arches' \<noteq> []
        \<and> working_archlist opts arches' extra = Inr wl'
        \<and> {a \<in> set wl'. arch_allowed env arches' a} = {}"
  then show "getArchList env opts ev bt extra =
        ([GetBuildConfig bt ev], Inl (Exn BuildError ''No matching arches were found''))"
    using getArchList_cases [of env bt ev bc' arches' opts extra wl'] by blast
qed

theorem getArchList_resolved_witness:
  "getArchList demo_env (override_opts True ''noarch x86_64  noarch'') 7 3 None =
     ([GetBuildConfig 3 7], Inr [''noarch'', ''x86_64''])
   \<and> [''noarch'', ''x86_64''] \<noteq> [] \<and> distinct [''noarch'', ''x86_64'']
   \<and> getArchList demo_env (override_opts True ''s390x'') 7 3 None =
       ([GetBuildConfig 3 7], Inl (Exn BuildError ''No matching arches were found''))"
  using getArchList_resolved [of demo_env "override_opts True ''noarch x86_64  noarch''" 7 3 None
      "[GetBuildConfig 3 7]" "[''noarch'', ''x86_64'']"
      "\<lparr>bc_name = ''f-build'', bc_id = 3, bc_arches = Some ''x86_64 ppc64le''\<rparr>" "''x86_64 ppc64le''" "[]"]
  by (simp add: demo_eval)









section \<open>The per-architecture task\<close>

lemma endswith_iff: "endswith s suf \<longleftrightarrow> (\<exists>q. s = q @ suf)"
proof
  assume "endswith s suf"
  then have "s = take (length s - length suf) s @ suf"
    using append_take_drop_id [of "length s - length suf" s] by (simp add: endswith_def)
  then show "\<exists>q. s = q @ suf" ..
next
  assume "\<exists>q. s = q @ suf"
  then show "endswith s suf"
    by (auto simp: endswith_def)
qed

lemma basename_append:
  assumes "CHR ''/'' \<notin> set s"
  shows "basename (q @ s) = basename q @ s"
proof -
  have "takeWhile (\<lambda>c. c \<noteq> CHR ''/'') (rev s @ rev q) = rev s @ takeWhile (\<lambda>c. c \<noteq> CHR ''/'') (rev q)"
    by (rule takeWhile_append2) (use assms in auto)
  then show ?thesis
    by (simp add: basename_def)
qed

lemma basename_slash:
  assumes "CHR ''/'' \<notin> set n"
  shows "basename (p @ ''/'' @ n) = n"
proof -
  have "basename ((p @ ''/'') @ n) = basename (p @ ''/'') @ n"
    by (rule basename_append [OF assms])
  then show ?thesis
    by (simp add: basename_def)
qed

lemma basename_suffix: "\<exists>x. r = x @ basename r"
proof -
  have "r = rev (takeWhile (\<lambda>c. c \<noteq> CHR ''/'') (rev r) @ dropWhile (\<lambda>c. c \<noteq> CHR ''/'') (rev r))"
    by (simp only: takeWhile_dropWhile_id rev_rev_ident)
  also have "\<dots> = rev (dropWhile (\<lambda>c. c \<noteq> CHR ''/'') (rev r)) @ basename r"
    by (simp only: rev_append basename_def)
  finally show ?thesis ..
qed

lemma component_name_spec: "component_name repo = spec_component_name repo"
proof (cases "endswith repo ''.git''")
  case True
  then obtain q where q: "repo = q @ ''.git''"
    by (auto simp: endswith_iff)
  have b: "basename repo = basename q @ ''.git''"
    unfolding q by (rule basename_append) simp
  have "endswith (basename repo) ''.git''"
    unfolding b by (auto simp: endswith_iff)
  then have "spec_component_name repo = basename q"
    by (simp add: spec_component_name_def b)
  moreover have "component_name repo = basename q"
    using True by (simp add: component_name_def q)
  ultimately show ?thesis by simp
next
  case False
  obtain x where x: "repo = x @ basename repo"
    using basename_suffix by blast
  have "\<not> endswith (basename repo) ''.git''"
  proof
    assume "endswith (basename repo) ''.git''"
    then obtain q where "basename repo = q @ ''.git''"
      by (auto simp: endswith_iff)
    with x have "repo = (x @ q) @ ''.git''" by simp
    then have "endswith repo ''.git''"
      unfolding endswith_iff by blast
    with False show False by simp
  qed
  with False show ?thesis
    by (simp add: component_name_def spec_component_name_def)
qed

lemma bind_tr_Inr_iff:
  "bind_tr m f = (t, Inr b) \<longleftrightarrow> (\<exists>t1 a t2. m = (t1, Inr a) \<and> f a = (t2, Inr b) \<and> t = t1 @ t2)"
  by (cases m) (auto simp: bind_tr_def split: prod.splits sum.splits)

lemma then_tr_Inr_iff:
  "then_tr m n = (t, Inr b) \<longleftrightarrow> (\<exists>t1 a t2. m = (t1, Inr a) \<and> n = (t2, Inr b) \<and> t = t1 @ t2)"
  by (simp add: then_tr_def bind_tr_Inr_iff)

lemma osbs_Inr:
  assumes "osbs cenv cached = (t, Inr (client, cached'))"
  shows "cached' = Some client \<and>
    ((cached = Some client \<and> t = []) \<or> (cached = None \<and> new_OSBS cenv = Inr client \<and> t = [NewOSBS]))"
  using assms
  by (auto simp: osbs_def traced_defs bind_tr_def split: option.splits sum.splits)

lemma download_logs_Inr:
  assumes "download_logs cenv self cached b = (t, Inr (logs, cached'))"
  shows "logs = [''build.log'']"
  using assms
  by (auto simp: download_logs_def Let_def traced_defs bind_tr_Inr_iff)


lemma CreateContainerTask_handler_Inr:
  assumes "CreateContainerTask_handler cenv self cached src target_info build_tag arch = (t, Inr ret)"
  shows "\<exists>(owner_info :: user_info) scm client build.
           new_SCM cenv src = Inr scm
         \<and> (cached = Some client \<or> (cached = None \<and> new_OSBS cenv = Inr client))
         \<and> create_build client (git_uri_of scm) (revision scm) (user_name owner_info)
              (component_name (repository scm)) (ti_name target_info) arch = Inr build
         \<and> CreateBuild (git_uri_of scm) (revision scm) (user_name owner_info)
              (component_name (repository scm)) (ti_name target_info) arch \<in> set t
         \<and> ret = [(''task_id'', PyInt (task_id self)), (''logs'', PyList [PyStr ''build.log'']),
                   (''osbs_build_id'', build_id build)]"
  using assms
  unfolding CreateContainerTask_handler_def Let_def
  apply (clarsimp simp: bind_tr_Inr_iff then_tr_Inr_iff traced_defs)
  apply (drule osbs_Inr)+
  apply (drule download_logs_Inr)
  apply (elim conjE disjE)
   apply simp_all
   apply blast+
  done

lemmas cc_eval =
  CreateContainerTask_handler_def traced_defs bind_tr_Inl bind_tr_Inr then_tr_Inl then_tr_Inr
  osbs_def download_logs_def git_uri_of_def after_plus_def component_name_def endswith_def
  basename_def path_join_def demo_cc_env_def demo_client_def demo_task_def demo_target_def

text \<open>
  C8. The component name handed to the build service is the final path segment of the
  repository path, with a trailing \<open>.git\<close> stripped when present: a repository path
  ending in \<open>/n.git\<close> gives \<open>n\<close>, and so does one ending in \<open>/n\<close> (for a segment
  \<open>n\<close> that does not itself end in \<open>.git\<close>). Every run of the handler that returns
  has passed that name to \<open>create_build\<close>.
\<close>

theorem component_name_final_segment:
  "component_name repo = spec_component_name repo
   \<and> (CHR ''/'' \<notin> set n \<longrightarrow> component_name (p @ ''/'' @ n @ ''.git'') = n)
   \<and> (CHR ''/'' \<notin> set n \<and> \<not> endswith n ''.git'' \<longrightarrow> component_name (p @ ''/'' @ n) = n)
   \<and> (CreateContainerTask_handler cenv self cached src target_info build_tag arch = (t, Inr ret) \<longrightarrow>
        (\<exists>scm git_uri git_ref user.
            new_SCM cenv src = Inr scm
          \<and> CreateBuild git_uri git_ref user (spec_component_name (repository scm))
               (ti_name target_info) arch \<in> set t))"
proof (intro conjI impI)
  show "component_name repo = spec_component_name repo"
    by (rule component_name_spec)
next
  assume n: "CHR ''/'' \<notin> set n"
  then have "CHR ''/'' \<notin> set (n @ ''.git'')" by simp
  then have "basename (p @ ''/'' @ (n @ ''.git'')) = n @ ''.git''"
    by (rule basename_slash)
  then have "spec_component_name (p @ ''/'' @ n @ ''.git'') = n"
    by (simp add: spec_component_name_def endswith_def)
  then show "component_name (p @ ''/'' @ n @ ''.git'') = n"
    by (simp only: component_name_spec)
next
  assume a: "CHR ''/'' \<notin> set n \<and> \<not> endswith n ''.git''"
  then have "CHR ''/'' \<notin> set n" ..
  then have "basename (p @ ''/'' @ n) = n"
    by (rule basename_slash)
  with a have "spec_component_name (p @ ''/'' @ n) = n"
    by (simp add: spec_component_name_def)
  then show "component_name (p @ ''/'' @ n) = n"
    by (simp only: component_name_spec)
next
  assume "CreateContainerTask_handler cenv self cached src target_info build_tag arch = (t, Inr ret)"
  from CreateContainerTask_handler_Inr [OF this]
  show "\<exists>scm git_uri git_ref user.
            new_SCM cenv src = Inr scm
          \<and> CreateBuild git_uri git_ref user (spec_component_name (repository scm))
               (ti_name target_info) arch \<in> set t"
    unfolding component_name_spec by blast
qed

theorem component_name_final_segment_witness:
  "component_name ''/rpms/foo.git'' = ''foo'' \<and> component_name ''/rpms/foo'' = ''foo''
   \<and> CreateBuild ''https://example.com/rpms/foo.git'' ''abc'' ''alice'' ''foo'' ''t1'' ''x86_64''
       \<in> set (fst (CreateContainerTask_handler demo_cc_env demo_task None
                     ''git+https://example.com/rpms/foo.git#abc'' demo_target 3 ''x86_64''))"
  using component_name_final_segment [of "''/rpms/foo''" "''foo''" "''/rpms''"
      demo_cc_env demo_task None "''git+https://example.com/rpms/foo.git#abc''" demo_target 3 "''x86_64''"]
  by (simp add: cc_eval)

text \<open>
  C10. Whenever the handler of the per-architecture task returns, it returns a dict
  with exactly the keys \<open>task_id\<close>, \<open>logs\<close> and \<open>osbs_build_id\<close>: the first is the
  task's own id, the second is the list \<open>['build.log']\<close> whatever the build service
  answered for the log, and the third is the \<open>build_id\<close> of the answer of
  \<open>create_build\<close>.
\<close>

theorem CreateContainerTask_handler_imgdata:
  assumes "CreateContainerTask_handler cenv self cached src target_info build_tag arch = (t, Inr ret)"
  shows "fst ` set ret = {''task_id'', ''logs'', ''osbs_build_id''} \<and> distinct (map fst ret)
       \<and> map_of ret ''task_id'' = Some (PyInt (task_id self))
       \<and> map_of ret ''logs'' = Some (PyList [PyStr ''build.log''])
       \<and> (\<exists>(owner_info :: user_info) scm client build.
             new_SCM cenv src = Inr scm
           \<and> (cached = Some client \<or> (cached = None \<and> new_OSBS cenv = Inr client))
           \<and> create_build client (git_uri_of scm) (revision scm) (user_name owner_info)
                (component_name (repository scm)) (ti_name target_info) arch = Inr build
           \<and> map_of ret ''osbs_build_id'' = Some (build_id build))"
proof -
  from CreateContainerTask_handler_Inr [OF assms]
  obtain owner_info :: user_info and scm client build where
    h: "new_SCM cenv src = Inr scm"
       "cached = Some client \<or> (cached = None \<and> new_OSBS cenv = Inr client)"
       "create_build client (git_uri_of scm) (revision scm) (user_name owner_info)
          (component_name (repository scm)) (ti_name target_info) arch = Inr build"
       "ret = [(''task_id'', PyInt (task_id self)), (''logs'', PyList [PyStr ''build.log'']),
               (''osbs_build_id'', build_id build)]"
    by blast
  have k: "fst ` set ret = {''task_id'', ''logs'', ''osbs_build_id''}" "distinct (map fst ret)"
    "map_of ret ''task_id'' = Some (PyInt (task_id self))"
    "map_of ret ''logs'' = Some (PyList [PyStr ''build.log''])"
    "map_of ret ''osbs_build_id'' = Some (build_id build)"
    unfolding h(4) by auto
  from h(1-3) k(5) have "\<exists>(owner_info :: user_info) scm client build.
             new_SCM cenv src = Inr scm
           \<and> (cached = Some client \<or> (cached = None \<and> new_OSBS cenv = Inr client))
           \<and> create_build client (git_uri_of scm) (revision scm) (user_name owner_info)
                (component_name (repository scm)) (ti_name target_info) arch = Inr build
           \<and> map_of ret ''osbs_build_id'' = Some (build_id build)"
    by blast
  with k(1-4) show ?thesis by blast
qed

theorem CreateContainerTask_handler_imgdata_witness:
  "CreateContainerTask_handler demo_cc_env demo_task None
     ''git+https://example.com/rpms/foo.git#abc'' demo_target 3 ''x86_64'' =
     ([GetTaskInfo 42, GetUser 5, NewOSBS,
       CreateBuild ''https://example.com/rpms/foo.git'' ''abc'' ''alice'' ''foo'' ''t1'' ''x86_64'',
       WaitForBuildToFinish (PyStr ''build-1''), GetBuildLogs (PyStr ''build-1''),
       WriteFile ''/tmp/w/build.log'' ''log text'', UploadFile ''/tmp/w/build.log''],
      Inr [(''task_id'', PyInt 42), (''logs'', PyList [PyStr ''build.log'']),
           (''osbs_build_id'', PyStr ''build-1'')])
   \<and> map_of [(''task_id'', PyInt 42), (''logs'', PyList [PyStr ''build.log'']),
              (''osbs_build_id'', PyStr ''build-1'')] ''logs'' = Some (PyList [PyStr ''build.log''])"
  using CreateContainerTask_handler_imgdata [of demo_cc_env demo_task None
      "''git+https://example.com/rpms/foo.git#abc''" demo_target 3 "''x86_64''"
      "[GetTaskInfo 42, GetUser 5, NewOSBS,
        CreateBuild ''https://example.com/rpms/foo.git'' ''abc'' ''alice'' ''foo'' ''t1'' ''x86_64'',
        WaitForBuildToFinish (PyStr ''build-1''), GetBuildLogs (PyStr ''build-1''),
        WriteFile ''/tmp/w/build.log'' ''log text'', UploadFile ''/tmp/w/build.log'']"
      "[(''task_id'', PyInt 42), (''logs'', PyList [PyStr ''build.log'']),
        (''osbs_build_id'', PyStr ''build-1'')]"]
  by (simp add: cc_eval)

section \<open>The orchestrator\<close>

lemma getArchList_trace: "fst (getArchList env opts ev bt extra) = [GetBuildConfig bt ev]"
  by (auto simp: getArchList_def traced_defs bind_tr_def Let_def
           split: sum.splits option.splits prod.splits)

lemma handler_except_scratch:
  "truthy (dict_get opts ''scratch'') \<Longrightarrow> handler_except opts e = ([], Inl e)"
  by (simp add: handler_except_def raise_tr_def)

lemma handler_except_signal:
  "is_signal e \<Longrightarrow> handler_except opts e = ([], Inl e)"
  by (simp add: handler_except_def raise_tr_def)

lemma try_except_scratch:
  "truthy (dict_get opts ''scratch'') \<Longrightarrow> try_except m (handler_except opts) = m"
  by (cases m) (auto simp: try_except_def handler_except_scratch split: sum.splits)

lemma handler_scratch:
  assumes "getLastEvent env = Inr ev"
    and "getBuildTarget env target (ev_id ev) = Inr (Some ti)"
    and "getArchList env opts (ev_id ev) (ti_build_tag ti) None = (ta, Inr archlist)"
    and "truthy (dict_get opts ''scratch'')"
  shows "handler env self_id src target (Some opts) =
     (GetLastEvent # GetBuildTarget target (ev_id ev) # GetBuildConfig (ti_build_tag ti) (ev_id ev)
        # fst (handler_try env self_id src ti (ti_build_tag ti) archlist opts),
      snd (handler_try env self_id src ti (ti_build_tag ti) archlist opts))"
proof -
  have ta: "ta = [GetBuildConfig (ti_build_tag ti) (ev_id ev)]"
    using getArchList_trace [of env opts "ev_id ev" "ti_build_tag ti" None] assms(3) by simp
  have o: "(case Some opts of None \<Rightarrow> [] | Some d \<Rightarrow> if d = [] then [] else d) = opts"
    by simp
  show ?thesis
    unfolding handler_def o Let_def
    by (simp add: assms ta traced_defs bind_tr_Inr try_except_scratch)
qed

lemma dispatch_subtasks_trace:
  "list_all is_subtask (fst (dispatch_subtasks env self_id src ti bt arches subtasks))"
  by (induction arches arbitrary: subtasks)
     (auto simp: traced_defs then_tr_Inr split: sum.splits)

lemma handler_try_join:
  assumes "is_scm_url env src"
    and "dispatch_subtasks env self_id src ti bt archlist [] = (td, Inr subtasks)"
    and "task_wait env (map snd subtasks) True True = Inl e"
  shows "handler_try env self_id src ti bt archlist opts =
           (td @ [Wait (map snd subtasks) True True], Inl e)"
  using assms
  by (simp add: handler_try_def runBuilds_def traced_defs bind_tr_Inr bind_tr_Inl)

lemma not_finalization_subtask: "is_subtask c \<Longrightarrow> \<not> is_finalization c"
  by (cases c) simp_all

lemma list_all_subtask_no_finalization:
  "list_all is_subtask td \<Longrightarrow> \<not> list_ex is_finalization td"
  by (induction td) (auto simp: not_finalization_subtask)


lemma bind_tr_getArchList:
  "bind_tr (getArchList env opts ev bt extra) f =
     (case snd (getArchList env opts ev bt extra) of
        Inl e \<Rightarrow> ([GetBuildConfig bt ev], Inl e)
      | Inr a \<Rightarrow> (GetBuildConfig bt ev # fst (f a), snd (f a)))"
proof (cases "getArchList env opts ev bt extra")
  case (Pair t r)
  with getArchList_trace [of env opts ev bt extra] have "t = [GetBuildConfig bt ev]"
    by simp
  with Pair show ?thesis
    by (cases r) (simp_all add: bind_tr_Inl bind_tr_Inr)
qed

lemma handler_opts_norm:
  "(case opts_arg of None \<Rightarrow> [] | Some d \<Rightarrow> if d = [] then [] else d) =
   (case opts_arg of None \<Rightarrow> [] | Some d \<Rightarrow> d)"
  by (simp split: option.splits)

text \<open>
  C4, as amended. A run whose options do not set the scratch flag always ends in an
  exception and never creates a subtask. The lookups of lines 201-204 (last event,
  build target, architecture resolution) come before the gate of line 207. When they
  return, the exception is the \<open>NotImplementedError\<close> of the gate, raised after
  exactly those three remote calls. When one of them raises, the run ends there with
  that very exception: the one of \<open>getLastEvent\<close>, the one of \<open>getBuildTarget\<close>,
  or the one of \<open>getArchList\<close>; and when \<open>getBuildTarget\<close> answers \<open>None\<close> for an
  unknown target, the run ends with the \<open>TypeError\<close> of the subscript of line 203.
\<close>

theorem handler_non_scratch_gate:
  assumes "\<not> truthy (dict_get (case opts_arg of None \<Rightarrow> [] | Some d \<Rightarrow> d) ''scratch'')"
  shows "(\<exists>e. snd (handler env self_id src target opts_arg) = Inl e)
       \<and> \<not> list_ex is_subtask (fst (handler env self_id src target opts_arg))
       \<and> (getLastEvent env = Inr ev \<and> getBuildTarget env target (ev_id ev) = Inr (Some ti)
            \<and> snd (getArchList env (case opts_arg of None \<Rightarrow> [] | Some d \<Rightarrow> d)
                     (ev_id ev) (ti_build_tag ti) None) = Inr archlist \<longrightarrow>
          handler env self_id src target opts_arg =
            ([GetLastEvent, GetBuildTarget target (ev_id ev),
              GetBuildConfig (ti_build_tag ti) (ev_id ev)], Inl unsupported))
       \<and> (getLastEvent env = Inl e1 \<longrightarrow>
          handler env self_id src target opts_arg = ([GetLastEvent], Inl e1))
       \<and> (getLastEvent env = Inr ev \<and> getBuildTarget env target (ev_id ev) = Inl e2 \<longrightarrow>
          handler env self_id src target opts_arg =
            ([GetLastEvent, GetBuildTarget target (ev_id ev)], Inl e2))
       \<and> (getLastEvent env = Inr ev \<and> getBuildTarget env target (ev_id ev) = Inr None \<longrightarrow>
          handler env self_id src target opts_arg =
            ([GetLastEvent, GetBuildTarget target (ev_id ev)],
             Inl (Exn TypeError ''NoneType object has no attribute __getitem__'')))
       \<and> (getLastEvent env = Inr ev \<and> getBuildTarget env target (ev_id ev) = Inr (Some ti)
            \<and> snd (getArchList env (case opts_arg of None \<Rightarrow> [] | Some d \<Rightarrow> d)
                     (ev_id ev) (ti_build_tag ti) None) = Inl e3 \<longrightarrow>
          handler env self_id src target opts_arg =
            ([GetLastEvent, GetBuildTarget target (ev_id ev),
              GetBuildConfig (ti_build_tag ti) (ev_id ev)], Inl e3))"
  using assms
  unfolding handler_def handler_opts_norm Let_def bind_tr_getArchList
  by (auto simp: traced_defs bind_tr_def split: sum.splits option.splits)

theorem handler_non_scratch_gate_witness:
  "handler demo_env 1 demo_src ''t1'' (Some (override_opts False ''s390x'')) =
     ([GetLastEvent, GetBuildTarget ''t1'' 7, GetBuildConfig 3 7], Inl unsupported)
   \<and> handler demo_env 1 demo_src ''t1'' None =
     ([GetLastEvent, GetBuildTarget ''t1'' 7, GetBuildConfig 3 7], Inl unsupported)
   \<and> handler noarches_env 1 demo_src ''t1'' None =
     ([GetLastEvent, GetBuildTarget ''t1'' 7, GetBuildConfig 3 7],
      Inl (Exn BuildError ''No arches for tag f-build [3]''))
   \<and> handler unknown_target_env 1 demo_src ''t1'' None =
     ([GetLastEvent, GetBuildTarget ''t1'' 7],
      Inl (Exn TypeError ''NoneType object has no attribute __getitem__''))
   \<and> handler no_session_env 1 demo_src ''t1'' None =
     ([GetLastEvent], Inl (Exn Fault ''connection refused''))"
  using handler_non_scratch_gate [where opts_arg = "Some (override_opts False ''s390x'')"
      and env = demo_env and self_id = 1 and src = demo_src and target = "''t1''"
      and ev = "\<lparr>ev_id = 7\<rparr>" and ti = demo_target and archlist = "[''x86_64'', ''ppc64le'']"]
    handler_non_scratch_gate [where opts_arg = None
      and env = demo_env and self_id = 1 and src = demo_src and target = "''t1''"
      and ev = "\<lparr>ev_id = 7\<rparr>" and ti = demo_target and archlist = "[''x86_64'', ''ppc64le'']"]
    handler_non_scratch_gate [where opts_arg = None
      and env = noarches_env and self_id = 1 and src = demo_src and target = "''t1''"
      and ev = "\<lparr>ev_id = 7\<rparr>" and ti = demo_target
      and ?e3.0 = "Exn BuildError ''No arches for tag f-build [3]''"]
    handler_non_scratch_gate [where opts_arg = None
      and env = unknown_target_env and self_id = 1 and src = demo_src and target = "''t1''"
      and ev = "\<lparr>ev_id = 7\<rparr>"]
    handler_non_scratch_gate [where opts_arg = None
      and env = no_session_env and self_id = 1 and src = demo_src and target = "''t1''"
      and ?e1.0 = "Exn Fault ''connection refused''"]
  by (simp add: noarches_env_def unknown_target_env_def no_session_env_def demo_eval
        no_arches_msg_def str_int_def str_nat.simps digit_char_def)

text \<open>
  The claim as first stated fails where the build tag declares no arches: the run ends
  with the \<open>BuildError\<close> of \<open>getArchList\<close>, not with the error of the gate.
\<close>

theorem handler_non_scratch_counterexample:
  "\<not> truthy (dict_get [] ''scratch'')
   \<and> handler noarches_env 1 demo_src ''t1'' None =
       ([GetLastEvent, GetBuildTarget ''t1'' 7, GetBuildConfig 3 7],
        Inl (Exn BuildError ''No arches for tag f-build [3]''))
   \<and> snd (handler noarches_env 1 demo_src ''t1'' None) \<noteq> Inl unsupported"
  by (simp add: handler_def noarches_env_def demo_eval no_arches_msg_def str_int_def
        str_nat.simps digit_char_def unsupported_def)

text \<open>
  C3. The join is Koji's \<open>wait\<close>, called with \<open>all=True, failany=True\<close>; what it
  promises there is that it raises as soon as one of the awaited subtasks has failed.
  Under that contract, a scratch run that has dispatched its subtasks, one of which
  fails, ends with the exception of the join: the \<open>wait\<close> call is the last remote call
  of the run, no result is aggregated and \<open>moveContainerToScratch\<close> is never called.
\<close>

theorem handler_join_fail_fast:
  assumes "getLastEvent env = Inr ev"
    and "getBuildTarget env target (ev_id ev) = Inr (Some ti)"
    and "getArchList env opts (ev_id ev) (ti_build_tag ti) None = (ta, Inr archlist)"
    and "truthy (dict_get opts ''scratch'')"
    and "is_scm_url env src"
    and "dispatch_subtasks env self_id src ti (ti_build_tag ti) archlist [] = (td, Inr subtasks)"
    and failany: "\<And>ids. \<exists>i \<in> set ids. failed i \<Longrightarrow> isl (task_wait env ids True True)"
    and "\<exists>i \<in> set (map snd subtasks). failed i"
  shows "\<exists>e. task_wait env (map snd subtasks) True True = Inl e
           \<and> handler env self_id src target (Some opts) =
               (GetLastEvent # GetBuildTarget target (ev_id ev)
                  # GetBuildConfig (ti_build_tag ti) (ev_id ev)
                  # td @ [Wait (map snd subtasks) True True], Inl e)
           \<and> \<not> list_ex is_finalization (fst (handler env self_id src target (Some opts)))"
proof -
  from failany [OF assms(8)] obtain e where e: "task_wait env (map snd subtasks) True True = Inl e"
    by (auto simp: isl_def)
  have t: "handler_try env self_id src ti (ti_build_tag ti) archlist opts =
             (td @ [Wait (map snd subtasks) True True], Inl e)"
    by (rule handler_try_join [OF assms(5,6) e])
  have h: "handler env self_id src target (Some opts) =
               (GetLastEvent # GetBuildTarget target (ev_id ev)
                  # GetBuildConfig (ti_build_tag ti) (ev_id ev)
                  # td @ [Wait (map snd subtasks) True True], Inl e)"
    using handler_scratch [OF assms(1-4), of self_id src] by (simp add: t)
  have "list_all is_subtask td"
    using dispatch_subtasks_trace [of env self_id src ti "ti_build_tag ti" archlist "[]"] assms(6)
    by simp
  then have "\<not> list_ex is_finalization td"
    by (rule list_all_subtask_no_finalization)
  then have "\<not> list_ex is_finalization (fst (handler env self_id src target (Some opts)))"
    by (simp add: h list_ex_iff)
  with e h show ?thesis by blast
qed

lemmas handler_eval =
  handler_def handler_try_def runBuilds_def try_except_def handler_except_def is_signal_def
  dict_item_def raise_if_image_failed_def BuildContainerTask_osbs_def
  str_int_def str_nat.simps digit_char_def demo_result_def demo_src_def demo_eval

theorem handler_join_fail_fast_witness:
  "handler failing_env 1 demo_src ''t1'' (Some scratch_opts) =
     ([GetLastEvent, GetBuildTarget ''t1'' 7, GetBuildConfig 3 7,
       Subtask ''createContainer'' demo_src demo_target 3 ''x86_64'' ''container'' 1,
       Subtask ''createContainer'' demo_src demo_target 3 ''ppc64le'' ''container'' 1,
       Wait [101, 102] True True],
      Inl (Exn GenericError ''subtask 102 failed''))"
  using handler_join_fail_fast [of failing_env "\<lparr>ev_id = 7\<rparr>" "''t1''" demo_target scratch_opts
      "[GetBuildConfig 3 7]" "[''x86_64'', ''ppc64le'']" demo_src 1
      "[Subtask ''createContainer'' demo_src demo_target 3 ''x86_64'' ''container'' 1,
        Subtask ''createContainer'' demo_src demo_target 3 ''ppc64le'' ''container'' 1]"
      "[(''x86_64'', 101), (''ppc64le'', 102)]" "\<lambda>i. i = 102"]
  by (simp add: failing_env_def handler_eval)

text \<open>
  C9. The handler of line 248 re-raises \<open>SystemExit\<close>, \<open>ServerExit\<close> and
  \<open>KeyboardInterrupt\<close> as they are, whatever the options, and for a scratch build the
  handler of line 251 re-raises every other exception as it is. Neither makes a remote
  call: a scratch run whose \<open>try\<close> body raises ends with that very exception, and its
  remote calls are those of the lookups followed by those of the body, with nothing
  added (no build record is touched, \<open>failBuild\<close> is never called).
\<close>

theorem handler_reraises:
  "(is_signal e \<longrightarrow> handler_except opts e = ([], Inl e))
   \<and> (truthy (dict_get opts ''scratch'') \<longrightarrow> handler_except opts e = ([], Inl e))
   \<and> (is_signal e \<or> truthy (dict_get opts ''scratch'') \<longrightarrow>
        try_except (tt, Inl e) (handler_except opts) = (tt, Inl e))
   \<and> (getLastEvent env = Inr ev \<and> getBuildTarget env target (ev_id ev) = Inr (Some ti)
        \<and> getArchList env opts (ev_id ev) (ti_build_tag ti) None = (ta, Inr archlist)
        \<and> truthy (dict_get opts ''scratch'')
        \<and> handler_try env self_id src ti (ti_build_tag ti) archlist opts = (tb, Inl e') \<longrightarrow>
        handler env self_id src target (Some opts) =
          (GetLastEvent # GetBuildTarget target (ev_id ev)
             # GetBuildConfig (ti_build_tag ti) (ev_id ev) # tb, Inl e'))"
proof (intro conjI impI)
  assume "is_signal e"
  then show "handler_except opts e = ([], Inl e)" by (rule handler_except_signal)
next
  assume "truthy (dict_get opts ''scratch'')"
  then show "handler_except opts e = ([], Inl e)" by (rule handler_except_scratch)
next
  assume "is_signal e \<or> truthy (dict_get opts ''scratch'')"
  then have "handler_except opts e = ([], Inl e)"
    using handler_except_signal handler_except_scratch by blast
  then show "try_except (tt, Inl e) (handler_except opts) = (tt, Inl e)"
    by (simp add: try_except_def)
next
  assume a: "getLastEvent env = Inr ev \<and> getBuildTarget env target (ev_id ev) = Inr (Some ti)
        \<and> getArchList env opts (ev_id ev) (ti_build_tag ti) None = (ta, Inr archlist)
        \<and> truthy (dict_get opts ''scratch'')
        \<and> handler_try env self_id src ti (ti_build_tag ti) archlist opts = (tb, Inl e')"
  then show "handler env self_id src target (Some opts) =
          (GetLastEvent # GetBuildTarget target (ev_id ev)
             # GetBuildConfig (ti_build_tag ti) (ev_id ev) # tb, Inl e')"
    using handler_scratch [of env ev target ti opts ta archlist self_id src] by simp
qed

theorem handler_reraises_witness:
  "is_signal (Exn ServerExit [])
   \<and> handler_except [] (Exn KeyboardInterrupt []) = ([], Inl (Exn KeyboardInterrupt []))
   \<and> handler shutdown_env 1 demo_src ''t1'' (Some scratch_opts) =
     ([GetLastEvent, GetBuildTarget ''t1'' 7, GetBuildConfig 3 7,
       Subtask ''createContainer'' demo_src demo_target 3 ''x86_64'' ''container'' 1,
       Subtask ''createContainer'' demo_src demo_target 3 ''ppc64le'' ''container'' 1,
       Wait [101, 102] True True],
      Inl (Exn ServerExit []))"
  using handler_reraises [of "Exn KeyboardInterrupt []" "[]" "[]" shutdown_env "\<lparr>ev_id = 7\<rparr>"
      "''t1''" demo_target "[]" "[]" 1 demo_src "[]" "Exn ServerExit []"]
    handler_reraises [of "Exn ServerExit []" scratch_opts "[]" shutdown_env "\<lparr>ev_id = 7\<rparr>"
      "''t1''" demo_target "[GetBuildConfig 3 7]" "[''x86_64'', ''ppc64le'']" 1 demo_src
      "[Subtask ''createContainer'' demo_src demo_target 3 ''x86_64'' ''container'' 1,
        Subtask ''createContainer'' demo_src demo_target 3 ''ppc64le'' ''container'' 1,
        Wait [101, 102] True True]" "Exn ServerExit []"]
  by (simp add: shutdown_env_def handler_eval)


lemma rekey_keys:
  "fst ` set (rekey items d) = fst ` set d \<union> (\<lambda>item. str_int (fst item)) ` set items"
  by (induction items d rule: rekey.induct) (auto simp: dom_update)

lemma verify_results_Cons:
  "verify_results (result # rest) =
     ([], case dict_item result ''osbs_build_id'' of
            Inl e \<Rightarrow> Inl e
          | Inr osbs_build_id \<Rightarrow>
              Inl (Exn AttributeError ''BuildContainerTask object has no attribute osbs''))"
  by (simp add: raise_if_image_failed_def BuildContainerTask_osbs_def traced_defs
        bind_tr_def then_tr_def split: sum.splits)

lemma handler_try_joined:
  assumes "is_scm_url env src"
    and "dispatch_subtasks env self_id src ti bt archlist [] = (td, Inr subtasks)"
    and "task_wait env (map snd subtasks) True True = Inr results"
    and "truthy (dict_get opts ''scratch'')"
    and "host_moveContainerToScratch env self_id (rekey results []) = Inr ()"
  shows "handler_try env self_id src ti bt archlist opts =
           (td @ [Wait (map snd subtasks) True True,
                  MoveContainerToScratch self_id (rekey results [])]
               @ fst (verify_results (map snd results)),
            snd (verify_results (map snd results)))"
  using assms
  by (simp add: handler_try_def runBuilds_def traced_defs bind_tr_Inr then_tr_Inr)

text \<open>
  C1. The finalization call of a run over \<open>x86_64\<close> and \<open>ppc64le\<close>, whose subtasks
  101 and 102 both complete: the dict handed to \<open>moveContainerToScratch\<close> has the keys
  \<open>'101'\<close> and \<open>'102'\<close>, the task ids as strings (line 236,
  \<open>results_xmlrpc[str(task_id)] = result\<close>), and neither arch is a key of it, although
  the comment of line 235 announces arches for keys.
\<close>

theorem handler_finalization_keys:
  "filter is_finalization (fst (handler demo_env 1 demo_src ''t1'' (Some scratch_opts))) =
     [MoveContainerToScratch 1 [(''101'', demo_result 101 ''b1''), (''102'', demo_result 102 ''b2'')]]
   \<and> map_of [(''101'', demo_result 101 ''b1''), (''102'', demo_result 102 ''b2'')] ''x86_64'' = None
   \<and> map_of [(''101'', demo_result 101 ''b1''), (''102'', demo_result 102 ''b2'')] ''ppc64le'' = None"
  by (simp add: handler_eval)

text \<open>
  C2. The same run, all subtasks complete: \<open>moveContainerToScratch\<close> is called, and
  the verification loop that follows raises at its first result, but what it raises is
  \<open>AttributeError\<close> from \<open>self.osbs\<close> (line 261), before any build status is fetched:
  \<open>ContainerError\<close> cannot be reached, whatever the state of the external builds.
\<close>

theorem handler_verification_raises_AttributeError:
  "handler demo_env 1 demo_src ''t1'' (Some scratch_opts) =
     ([GetLastEvent, GetBuildTarget ''t1'' 7, GetBuildConfig 3 7,
       Subtask ''createContainer'' demo_src demo_target 3 ''x86_64'' ''container'' 1,
       Subtask ''createContainer'' demo_src demo_target 3 ''ppc64le'' ''container'' 1,
       Wait [101, 102] True True,
       MoveContainerToScratch 1 [(''101'', demo_result 101 ''b1''), (''102'', demo_result 102 ''b2'')]],
      Inl (Exn AttributeError ''BuildContainerTask object has no attribute osbs''))"
  by (simp add: handler_eval)

end
